theory Spec2Isabelle
  imports Complex_Main
begin

section \<open>Data model (src/types/index.ts, supabase/migrations)\<close>

text \<open>
  A JavaScript \<open>number\<close> is modelled as a real: rounding of IEEE doubles and NaN are
  outside the model, and the store keeps a number as it is given (the schema's
  \<open>numeric(10, 2)\<close> and \<open>integer\<close> columns are not enforced). Optional fields (\<open>user_id?\<close>, \<open>session_id?\<close>, \<open>product?\<close>) are
  options. Field names carry a prefix per interface, since the interfaces share
  names (\<open>id\<close>, \<open>quantity\<close>, \<open>price\<close>, ...).
\<close>

type_synonym number = real

record Product =
  p_id :: string
  p_category_id :: string
  p_name :: string
  p_description :: string
  p_price :: number
  p_image_url :: string
  p_stock :: number
  p_created_at :: string

record CartItem =
  ci_id :: string
  ci_user_id :: "string option"
  ci_session_id :: "string option"
  ci_product_id :: string
  ci_quantity :: number
  ci_created_at :: string
  ci_product :: "Product option"

datatype OrderStatus = pending | completed | cancelled

record Order =
  o_id :: string
  o_user_id :: "string option"
  o_session_id :: "string option"
  o_total_amount :: number
  o_status :: OrderStatus
  o_customer_email :: string
  o_customer_name :: string
  o_shipping_address :: string
  o_created_at :: string

record OrderItem =
  oi_id :: string
  oi_order_id :: string
  oi_product_id :: string
  oi_quantity :: number
  oi_price :: number
  oi_created_at :: string
  oi_product :: "Product option"

text \<open>\<open>interface OrderData\<close> of the orders module.\<close>

record OrderData =
  customer_name :: string
  customer_email :: string
  shipping_address :: string

text \<open>The object literal that \<open>createOrder\<close> builds for each order line.\<close>

record OrderItemPayload =
  pl_order_id :: string
  pl_product_id :: string
  pl_quantity :: number
  pl_price :: number

text \<open>The \<open>error\<close> member of a store response; the string is the error code.\<close>

datatype PostgrestError = PostgrestError string

section \<open>The environment: client storage, randomness, the hosted store\<close>

text \<open>
  Everything the functions touch is one explicit state:
  \<^item> \<open>localStorage\<close>, the client-local key-value store;
  \<^item> \<open>uuid_source\<close> and \<open>uuid_used\<close>: the values \<open>crypto.randomUUID()\<close> returns, in
    order, and how many were drawn;
  \<^item> the four tables of the store, rows in insertion order;
  \<^item> \<open>db_uuid\<close>, \<open>db_used\<close>, \<open>db_now\<close>: the column defaults \<open>gen_random_uuid()\<close> and
    \<open>now()\<close> of the schema;
  \<^item> \<open>faults\<close>: the outcome of each coming request to the store, in order (\<open>Some e\<close>:
    the request fails with \<open>e\<close> and changes nothing; \<open>None\<close>, or a schedule that has
    run out: it is carried out). Connectivity, authorization and constraint
    failures are the environment's choice, so they all enter here.
\<close>

record World =
  localStorage :: "string \<rightharpoonup> string"
  uuid_source :: "nat \<Rightarrow> string"
  uuid_used :: nat
  products :: "Product list"
  cart_items :: "CartItem list"
  orders :: "Order list"
  order_items :: "OrderItem list"
  db_uuid :: "nat \<Rightarrow> string"
  db_used :: nat
  db_now :: string
  faults :: "PostgrestError option list"

definition randomUUID :: "World \<Rightarrow> string \<times> World" where
  "randomUUID w = (uuid_source w (uuid_used w), w\<lparr>uuid_used := Suc (uuid_used w)\<rparr>)"

definition gen_random_uuid :: "World \<Rightarrow> string \<times> World" where
  "gen_random_uuid w = (db_uuid w (db_used w), w\<lparr>db_used := Suc (db_used w)\<rparr>)"

definition next_fault :: "World \<Rightarrow> PostgrestError option \<times> World" where
  "next_fault w = (case faults w of [] \<Rightarrow> (None, w) | f # fs \<Rightarrow> (f, w\<lparr>faults := fs\<rparr>))"

text \<open>
  \<open>.maybeSingle()\<close>: no row is an absent result, one row is that row, several rows are
  an error with no data.
\<close>

definition maybeSingle :: "'a list \<Rightarrow> 'a option \<times> PostgrestError option" where
  "maybeSingle rows =
     (case rows of
        [] \<Rightarrow> (None, None)
      | [r] \<Rightarrow> (Some r, None)
      | _ \<Rightarrow> (None, Some (PostgrestError ''PGRST116'')))"

text \<open>\<open>from('cart_items').select('*') ... .maybeSingle()\<close> under the filter \<open>P\<close>.\<close>

definition cart_items_select_maybeSingle ::
  "(CartItem \<Rightarrow> bool) \<Rightarrow> World \<Rightarrow> (CartItem option \<times> PostgrestError option) \<times> World" where
  "cart_items_select_maybeSingle P w =
     (case next_fault w of
        (Some e, w') \<Rightarrow> ((None, Some e), w')
      | (None, w') \<Rightarrow> (maybeSingle (filter P (cart_items w')), w'))"

text \<open>\<open>from('cart_items').update({ quantity: q })\<close> under the filter \<open>P\<close>.\<close>

definition cart_items_update_quantity ::
  "number \<Rightarrow> (CartItem \<Rightarrow> bool) \<Rightarrow> World \<Rightarrow> PostgrestError option \<times> World" where
  "cart_items_update_quantity q P w =
     (case next_fault w of
        (Some e, w') \<Rightarrow> (Some e, w')
      | (None, w') \<Rightarrow>
          (None, w'\<lparr>cart_items :=
                      map (\<lambda>r. if P r then r\<lparr>ci_quantity := q\<rparr> else r) (cart_items w')\<rparr>))"

text \<open>
  \<open>from('cart_items').insert({ session_id, product_id, quantity })\<close>: the other columns
  take their defaults.
\<close>

definition cart_items_insert ::
  "string \<Rightarrow> string \<Rightarrow> number \<Rightarrow> World \<Rightarrow> PostgrestError option \<times> World" where
  "cart_items_insert sessionId productId quantity w =
     (case next_fault w of
        (Some e, w') \<Rightarrow> (Some e, w')
      | (None, w') \<Rightarrow>
          (let (new_id, w'') = gen_random_uuid w'
           in (None, w''\<lparr>cart_items := cart_items w'' @
                 [\<lparr>ci_id = new_id, ci_user_id = None, ci_session_id = Some sessionId,
                   ci_product_id = productId, ci_quantity = quantity,
                   ci_created_at = db_now w'', ci_product = None\<rparr>]\<rparr>)))"

text \<open>\<open>from('cart_items').delete()\<close> under the filter \<open>P\<close>.\<close>

definition cart_items_delete ::
  "(CartItem \<Rightarrow> bool) \<Rightarrow> World \<Rightarrow> PostgrestError option \<times> World" where
  "cart_items_delete P w =
     (case next_fault w of
        (Some e, w') \<Rightarrow> (Some e, w')
      | (None, w') \<Rightarrow> (None, w'\<lparr>cart_items := filter (\<lambda>r. \<not> P r) (cart_items w')\<rparr>))"

text \<open>
  \<open>from('orders').insert({...}).select().single()\<close>: one request; on success the data is
  the stored row.
\<close>

definition orders_insert_select_single ::
  "string \<Rightarrow> number \<Rightarrow> OrderStatus \<Rightarrow> string \<Rightarrow> string \<Rightarrow> string \<Rightarrow> World
     \<Rightarrow> (PostgrestError + Order) \<times> World" where
  "orders_insert_select_single sessionId totalAmount status name email address w =
     (case next_fault w of
        (Some e, w') \<Rightarrow> (Inl e, w')
      | (None, w') \<Rightarrow>
          (let (new_id, w'') = gen_random_uuid w';
               row = \<lparr>o_id = new_id, o_user_id = None, o_session_id = Some sessionId,
                      o_total_amount = totalAmount, o_status = status,
                      o_customer_email = email, o_customer_name = name,
                      o_shipping_address = address, o_created_at = db_now w''\<rparr>
           in (Inr row, w''\<lparr>orders := orders w'' @ [row]\<rparr>)))"

text \<open>The rows a batch insert into \<open>order_items\<close> stores, each with an id of its own.\<close>

fun order_items_rows :: "OrderItemPayload list \<Rightarrow> World \<Rightarrow> OrderItem list \<times> World" where
  "order_items_rows [] w = ([], w)"
| "order_items_rows (pl # pls) w =
     (let (new_id, w') = gen_random_uuid w;
          (rows, w'') = order_items_rows pls w'
      in (\<lparr>oi_id = new_id, oi_order_id = pl_order_id pl, oi_product_id = pl_product_id pl,
           oi_quantity = pl_quantity pl, oi_price = pl_price pl,
           oi_created_at = db_now w, oi_product = None\<rparr> # rows, w''))"

text \<open>\<open>from('order_items').insert(orderItems)\<close>: one request for the whole batch.\<close>

definition order_items_insert ::
  "OrderItemPayload list \<Rightarrow> World \<Rightarrow> PostgrestError option \<times> World" where
  "order_items_insert pls w =
     (case next_fault w of
        (Some e, w') \<Rightarrow> (Some e, w')
      | (None, w') \<Rightarrow>
          (let (rows, w'') = order_items_rows pls w'
           in (None, w''\<lparr>order_items := order_items w'' @ rows\<rparr>)))"

text \<open>\<open>from('orders').select('*').eq('id', orderId).maybeSingle()\<close>.\<close>

definition orders_select_maybeSingle ::
  "(Order \<Rightarrow> bool) \<Rightarrow> World \<Rightarrow> (Order option \<times> PostgrestError option) \<times> World" where
  "orders_select_maybeSingle P w =
     (case next_fault w of
        (Some e, w') \<Rightarrow> ((None, Some e), w')
      | (None, w') \<Rightarrow> (maybeSingle (filter P (orders w')), w'))"

section \<open>The cart module\<close>

text \<open>
  \<open>getSessionId\<close> of the cart module. \<open>!sessionId\<close> holds for null and for the empty
  string; then an identifier is generated and stored.
\<close>

definition getSessionId_cart :: "World \<Rightarrow> string \<times> World" where
  "getSessionId_cart w =
     (let generated =
            (let (sessionId, w') = randomUUID w
             in (sessionId,
                 w'\<lparr>localStorage := (localStorage w')(''session_id'' \<mapsto> sessionId)\<rparr>))
      in case localStorage w ''session_id'' of
           None \<Rightarrow> generated
         | Some sessionId \<Rightarrow> if sessionId = [] then generated else (sessionId, w))"

text \<open>
  A function that may throw returns the error or its value, and always the state it left
  behind.
\<close>

definition addToCart :: "string \<Rightarrow> number \<Rightarrow> World \<Rightarrow> (PostgrestError + unit) \<times> World" where
  "addToCart productId quantity w =
     (let (sessionId, w1) = getSessionId_cart w;
          ((existingItem, _), w2) =
             cart_items_select_maybeSingle
               (\<lambda>r. ci_session_id r = Some sessionId \<and> ci_product_id r = productId) w1
      in case existingItem of
           Some ex \<Rightarrow>
             (let (error, w3) =
                    cart_items_update_quantity (ci_quantity ex + quantity)
                      (\<lambda>r. ci_id r = ci_id ex) w2
              in case error of Some e \<Rightarrow> (Inl e, w3) | None \<Rightarrow> (Inr (), w3))
         | None \<Rightarrow>
             (let (error, w3) = cart_items_insert sessionId productId quantity w2
              in case error of Some e \<Rightarrow> (Inl e, w3) | None \<Rightarrow> (Inr (), w3)))"

definition removeFromCart :: "string \<Rightarrow> World \<Rightarrow> (PostgrestError + unit) \<times> World" where
  "removeFromCart cartItemId w =
     (let (error, w1) = cart_items_delete (\<lambda>r. ci_id r = cartItemId) w
      in case error of Some e \<Rightarrow> (Inl e, w1) | None \<Rightarrow> (Inr (), w1))"

definition updateCartItemQuantity ::
  "string \<Rightarrow> number \<Rightarrow> World \<Rightarrow> (PostgrestError + unit) \<times> World" where
  "updateCartItemQuantity cartItemId quantity w =
     (if quantity \<le> 0 then removeFromCart cartItemId w
      else (let (error, w1) =
                  cart_items_update_quantity quantity (\<lambda>r. ci_id r = cartItemId) w
            in case error of Some e \<Rightarrow> (Inl e, w1) | None \<Rightarrow> (Inr (), w1)))"

definition clearCart :: "World \<Rightarrow> (PostgrestError + unit) \<times> World" where
  "clearCart w =
     (let (sessionId, w1) = getSessionId_cart w;
          (error, w2) = cart_items_delete (\<lambda>r. ci_session_id r = Some sessionId) w1
      in case error of Some e \<Rightarrow> (Inl e, w2) | None \<Rightarrow> (Inr (), w2))"

section \<open>The orders module\<close>

text \<open>
  \<open>getSessionId\<close> of the orders module: \<open>getItem(...) || crypto.randomUUID()\<close>, where
  null and the empty string are falsy; nothing is written to the storage.
\<close>

definition getSessionId_orders :: "World \<Rightarrow> string \<times> World" where
  "getSessionId_orders w =
     (case localStorage w ''session_id'' of
        None \<Rightarrow> randomUUID w
      | Some sessionId \<Rightarrow> if sessionId = [] then randomUUID w else (sessionId, w))"

text \<open>\<open>item.product?.price || 0\<close>: an absent product gives undefined, and undefined and
  the number 0 are both falsy.\<close>

definition price_or_0 :: "CartItem \<Rightarrow> number" where
  "price_or_0 item =
     (case ci_product item of
        None \<Rightarrow> 0
      | Some p \<Rightarrow> if p_price p = 0 then 0 else p_price p)"

definition createOrder ::
  "CartItem list \<Rightarrow> OrderData \<Rightarrow> World \<Rightarrow> (PostgrestError + Order) \<times> World" where
  "createOrder cartItems orderData w =
     (let (sessionId, w1) = getSessionId_orders w;
          totalAmount = foldl (\<lambda>sum item. sum + price_or_0 item * ci_quantity item) 0 cartItems;
          (res, w2) = orders_insert_select_single sessionId totalAmount pending
                        (customer_name orderData) (customer_email orderData)
                        (shipping_address orderData) w1
      in case res of
           Inl orderError \<Rightarrow> (Inl orderError, w2)
         | Inr order \<Rightarrow>
             (let orderItems = map (\<lambda>item. \<lparr>pl_order_id = o_id order,
                                             pl_product_id = ci_product_id item,
                                             pl_quantity = ci_quantity item,
                                             pl_price = price_or_0 item\<rparr>) cartItems;
                  (itemsError, w3) = order_items_insert orderItems w2
              in case itemsError of
                   Some e \<Rightarrow> (Inl e, w3)
                 | None \<Rightarrow>
                     (case clearCart w3 of
                        (Inl e, w4) \<Rightarrow> (Inl e, w4)
                      | (Inr _, w4) \<Rightarrow> (Inr order, w4))))"

definition getOrderById :: "string \<Rightarrow> World \<Rightarrow> (PostgrestError + Order option) \<times> World" where
  "getOrderById orderId w =
     (let ((data, error), w1) = orders_select_maybeSingle (\<lambda>r. o_id r = orderId) w
      in case error of Some e \<Rightarrow> (Inl e, w1) | None \<Rightarrow> (Inr data, w1))"

section \<open>Vocabulary of the properties\<close>

text \<open>\<open>outcome fs n\<close>: what the schedule \<open>fs\<close> holds for the request after the next \<open>n\<close>.\<close>

definition outcome :: "PostgrestError option list \<Rightarrow> nat \<Rightarrow> PostgrestError option" where
  "outcome fs n = (if n < length fs then fs ! n else None)"

text \<open>The rows of \<open>cart_items\<close> for a session and a product.\<close>

definition rows_for :: "string \<Rightarrow> string \<Rightarrow> World \<Rightarrow> CartItem list" where
  "rows_for sessionId productId w =
     filter (\<lambda>r. ci_session_id r = Some sessionId \<and> ci_product_id r = productId) (cart_items w)"

text \<open>Calls of \<open>addToCart\<close> for one product, one after the other, each awaited: the first
  one that throws ends the run.\<close>

fun addToCart_serial :: "string \<Rightarrow> number list \<Rightarrow> World \<Rightarrow> (PostgrestError + unit) \<times> World" where
  "addToCart_serial productId [] w = (Inr (), w)"
| "addToCart_serial productId (q # qs) w =
     (case addToCart productId q w of
        (Inl e, w') \<Rightarrow> (Inl e, w')
      | (Inr _, w') \<Rightarrow> addToCart_serial productId qs w')"

text \<open>The price of the product joined to a cart item at call time, as the specification
  words it; an item without a product counts 0.\<close>

definition attached_price :: "CartItem \<Rightarrow> number" where
  "attached_price item = (case ci_product item of None \<Rightarrow> 0 | Some p \<Rightarrow> p_price p)"

text \<open>The rows a batch of payloads becomes, from the generator, its position and the
  clock alone.\<close>

fun stored_rows :: "(nat \<Rightarrow> string) \<Rightarrow> nat \<Rightarrow> string \<Rightarrow> OrderItemPayload list \<Rightarrow> OrderItem list" where
  "stored_rows gen k now [] = []"
| "stored_rows gen k now (pl # pls) =
     \<lparr>oi_id = gen k, oi_order_id = pl_order_id pl, oi_product_id = pl_product_id pl,
      oi_quantity = pl_quantity pl, oi_price = pl_price pl, oi_created_at = now,
      oi_product = None\<rparr> # stored_rows gen (Suc k) now pls"

text \<open>The order header and the order lines that \<open>createOrder\<close> hands to the store.\<close>

definition new_order :: "CartItem list \<Rightarrow> OrderData \<Rightarrow> World \<Rightarrow> Order" where
  "new_order cartItems orderData w =
     \<lparr>o_id = db_uuid w (db_used w), o_user_id = None,
      o_session_id = Some (fst (getSessionId_orders w)),
      o_total_amount = foldl (\<lambda>sum item. sum + price_or_0 item * ci_quantity item) 0 cartItems,
      o_status = pending, o_customer_email = customer_email orderData,
      o_customer_name = customer_name orderData,
      o_shipping_address = shipping_address orderData, o_created_at = db_now w\<rparr>"

definition new_order_items :: "CartItem list \<Rightarrow> World \<Rightarrow> OrderItem list" where
  "new_order_items cartItems w =
     stored_rows (db_uuid w) (Suc (db_used w)) (db_now w)
       (map (\<lambda>item. \<lparr>pl_order_id = db_uuid w (db_used w),
                      pl_product_id = ci_product_id item,
                      pl_quantity = ci_quantity item,
                      pl_price = price_or_0 item\<rparr>) cartItems)"

section \<open>Sample data\<close>

text \<open>A shop with two products, a cart of session \<open>S\<close> (three keyboards, one cable) and a
  cart line of another session \<open>T\<close>.\<close>

definition demo_uuid :: "string \<Rightarrow> nat \<Rightarrow> string" where
  "demo_uuid prefix n = prefix @ replicate n (CHR ''0'')"

definition keyboard :: Product where
  "keyboard = \<lparr>p_id = ''P1'', p_category_id = ''C1'', p_name = ''Keyboard'',
                p_description = [], p_price = 10, p_image_url = [], p_stock = 50,
                p_created_at = ''t0''\<rparr>"

definition cable :: Product where
  "cable = \<lparr>p_id = ''P2'', p_category_id = ''C1'', p_name = ''Cable'',
             p_description = [], p_price = 5, p_image_url = [], p_stock = 60,
             p_created_at = ''t0''\<rparr>"

definition cart_row :: "string \<Rightarrow> string \<Rightarrow> string \<Rightarrow> number \<Rightarrow> Product option \<Rightarrow> CartItem" where
  "cart_row i s p q joined =
     \<lparr>ci_id = i, ci_user_id = None, ci_session_id = Some s, ci_product_id = p,
      ci_quantity = q, ci_created_at = ''t1'', ci_product = joined\<rparr>"

definition demo_cart :: "CartItem list" where
  "demo_cart = [cart_row ''K1'' ''S'' ''P1'' 3 (Some keyboard),
                cart_row ''K2'' ''S'' ''P2'' 1 (Some cable)]"

definition demo_data :: OrderData where
  "demo_data = \<lparr>customer_name = ''Ada'', customer_email = ''ada@example.org'',
                 shipping_address = ''1 Main Street''\<rparr>"

definition demo_world :: World where
  "demo_world =
     \<lparr>localStorage = [''session_id'' \<mapsto> ''S''],
      uuid_source = demo_uuid ''c-'', uuid_used = 0,
      products = [keyboard, cable],
      cart_items = [cart_row ''K1'' ''S'' ''P1'' 3 None, cart_row ''K2'' ''S'' ''P2'' 1 None,
                    cart_row ''K3'' ''T'' ''P1'' 7 None],
      orders = [], order_items = [],
      db_uuid = demo_uuid ''db-'', db_used = 0, db_now = ''t2'',
      faults = []\<rparr>"

definition unavailable :: PostgrestError where
  "unavailable = PostgrestError ''503''"


section \<open>The store's requests, one outcome at a time\<close>

lemma next_fault_eq:
  "next_fault w = (outcome (faults w) 0, w\<lparr>faults := tl (faults w)\<rparr>)"
  by (cases "faults w") (simp_all add: next_fault_def outcome_def)

lemma outcome_tl [simp]: "outcome (tl fs) n = outcome fs (Suc n)"
  by (cases fs) (simp_all add: outcome_def)

lemma outcome_2: "outcome fs 2 = outcome fs (Suc (Suc 0))"
  by (simp add: numeral_2_eq_2)

lemma outcome_Nil [simp]: "outcome [] n = None"
  by (simp add: outcome_def)

lemma outcome_Cons [simp]: "outcome (f # fs) 0 = f" "outcome (f # fs) (Suc n) = outcome fs n"
  by (simp_all add: outcome_def)

lemma order_items_rows_snd:
  "snd (order_items_rows pls w) = w\<lparr>db_used := db_used w + length pls\<rparr>"
  by (induction pls arbitrary: w) (simp_all add: gen_random_uuid_def case_prod_beta)

lemma order_items_rows_stored:
  "fst (order_items_rows pls w) = stored_rows (db_uuid w) (db_used w) (db_now w) pls"
  by (induction pls arbitrary: w) (simp_all add: gen_random_uuid_def case_prod_beta)

lemma stored_rows_fields:
  "map oi_price (stored_rows g k now pls) = map pl_price pls"
  "map oi_quantity (stored_rows g k now pls) = map pl_quantity pls"
  "map oi_product_id (stored_rows g k now pls) = map pl_product_id pls"
  "map oi_order_id (stored_rows g k now pls) = map pl_order_id pls"
  "length (stored_rows g k now pls) = length pls"
  by (induction pls arbitrary: k) simp_all

lemma orders_insert_fail:
  "outcome (faults w) 0 = Some e \<Longrightarrow>
   orders_insert_select_single s t st n m a w = (Inl e, w\<lparr>faults := tl (faults w)\<rparr>)"
  by (simp add: orders_insert_select_single_def next_fault_eq)

lemma orders_insert_ok:
  "outcome (faults w) 0 = None \<Longrightarrow>
   orders_insert_select_single s t st n m a w =
     (Inr \<lparr>o_id = db_uuid w (db_used w), o_user_id = None, o_session_id = Some s,
           o_total_amount = t, o_status = st, o_customer_email = m, o_customer_name = n,
           o_shipping_address = a, o_created_at = db_now w\<rparr>,
      w\<lparr>faults := tl (faults w), db_used := Suc (db_used w),
        orders := orders w @
          [\<lparr>o_id = db_uuid w (db_used w), o_user_id = None, o_session_id = Some s,
            o_total_amount = t, o_status = st, o_customer_email = m, o_customer_name = n,
            o_shipping_address = a, o_created_at = db_now w\<rparr>]\<rparr>)"
  by (simp add: orders_insert_select_single_def next_fault_eq gen_random_uuid_def Let_def)

lemma order_items_insert_fail:
  "outcome (faults w) 0 = Some e \<Longrightarrow>
   order_items_insert pls w = (Some e, w\<lparr>faults := tl (faults w)\<rparr>)"
  by (simp add: order_items_insert_def next_fault_eq)

lemma order_items_insert_ok:
  "outcome (faults w) 0 = None \<Longrightarrow>
   order_items_insert pls w =
     (None, w\<lparr>faults := tl (faults w), db_used := db_used w + length pls,
              order_items := order_items w @
                 fst (order_items_rows pls (w\<lparr>faults := tl (faults w)\<rparr>))\<rparr>)"
  by (simp add: order_items_insert_def next_fault_eq case_prod_beta order_items_rows_snd)

lemma cart_items_delete_fail:
  "outcome (faults w) 0 = Some e \<Longrightarrow>
   cart_items_delete P w = (Some e, w\<lparr>faults := tl (faults w)\<rparr>)"
  by (simp add: cart_items_delete_def next_fault_eq)

lemma cart_items_delete_ok:
  "outcome (faults w) 0 = None \<Longrightarrow>
   cart_items_delete P w =
     (None, w\<lparr>faults := tl (faults w), cart_items := filter (\<lambda>r. \<not> P r) (cart_items w)\<rparr>)"
  by (simp add: cart_items_delete_def next_fault_eq)

lemma cart_select_ok:
  "outcome (faults w) 0 = None \<Longrightarrow>
   cart_items_select_maybeSingle P w =
     (maybeSingle (filter P (cart_items w)), w\<lparr>faults := tl (faults w)\<rparr>)"
  by (simp add: cart_items_select_maybeSingle_def next_fault_eq)

lemma cart_select_fail:
  "outcome (faults w) 0 = Some e \<Longrightarrow>
   cart_items_select_maybeSingle P w = ((None, Some e), w\<lparr>faults := tl (faults w)\<rparr>)"
  by (simp add: cart_items_select_maybeSingle_def next_fault_eq)

lemma cart_update_ok:
  "outcome (faults w) 0 = None \<Longrightarrow>
   cart_items_update_quantity q P w =
     (None, w\<lparr>faults := tl (faults w),
              cart_items := map (\<lambda>r. if P r then r\<lparr>ci_quantity := q\<rparr> else r) (cart_items w)\<rparr>)"
  by (simp add: cart_items_update_quantity_def next_fault_eq)

lemma cart_update_fail:
  "outcome (faults w) 0 = Some e \<Longrightarrow>
   cart_items_update_quantity q P w = (Some e, w\<lparr>faults := tl (faults w)\<rparr>)"
  by (simp add: cart_items_update_quantity_def next_fault_eq)

lemma cart_insert_ok:
  "outcome (faults w) 0 = None \<Longrightarrow>
   cart_items_insert s p q w =
     (None, w\<lparr>faults := tl (faults w), db_used := Suc (db_used w),
              cart_items := cart_items w @
                [\<lparr>ci_id = db_uuid w (db_used w), ci_user_id = None, ci_session_id = Some s,
                  ci_product_id = p, ci_quantity = q, ci_created_at = db_now w,
                  ci_product = None\<rparr>]\<rparr>)"
  by (simp add: cart_items_insert_def next_fault_eq gen_random_uuid_def)

lemma cart_insert_fail:
  "outcome (faults w) 0 = Some e \<Longrightarrow>
   cart_items_insert s p q w = (Some e, w\<lparr>faults := tl (faults w)\<rparr>)"
  by (simp add: cart_items_insert_def next_fault_eq)

lemma orders_select_ok:
  "outcome (faults w) 0 = None \<Longrightarrow>
   orders_select_maybeSingle P w =
     (maybeSingle (filter P (orders w)), w\<lparr>faults := tl (faults w)\<rparr>)"
  by (simp add: orders_select_maybeSingle_def next_fault_eq)

lemma orders_select_fail:
  "outcome (faults w) 0 = Some e \<Longrightarrow>
   orders_select_maybeSingle P w = ((None, Some e), w\<lparr>faults := tl (faults w)\<rparr>)"
  by (simp add: orders_select_maybeSingle_def next_fault_eq)

section \<open>Session identifiers\<close>

lemma getSessionId_orders_frame [simp]:
  "faults (snd (getSessionId_orders w)) = faults w"
  "cart_items (snd (getSessionId_orders w)) = cart_items w"
  "orders (snd (getSessionId_orders w)) = orders w"
  "order_items (snd (getSessionId_orders w)) = order_items w"
  "localStorage (snd (getSessionId_orders w)) = localStorage w"
  "db_used (snd (getSessionId_orders w)) = db_used w"
  "db_uuid (snd (getSessionId_orders w)) = db_uuid w"
  "db_now (snd (getSessionId_orders w)) = db_now w"
  by (simp_all add: getSessionId_orders_def randomUUID_def split: option.splits)

lemma getSessionId_cart_frame [simp]:
  "faults (snd (getSessionId_cart w)) = faults w"
  "cart_items (snd (getSessionId_cart w)) = cart_items w"
  "orders (snd (getSessionId_cart w)) = orders w"
  "order_items (snd (getSessionId_cart w)) = order_items w"
  "db_used (snd (getSessionId_cart w)) = db_used w"
  "db_uuid (snd (getSessionId_cart w)) = db_uuid w"
  "db_now (snd (getSessionId_cart w)) = db_now w"
  by (simp_all add: getSessionId_cart_def randomUUID_def Let_def split: option.splits)

lemma getSessionId_cart_stored:
  "localStorage w ''session_id'' = Some sid \<Longrightarrow> sid \<noteq> [] \<Longrightarrow> getSessionId_cart w = (sid, w)"
  by (simp add: getSessionId_cart_def)

lemma getSessionId_cart_stores:
  "fst (getSessionId_cart w) \<noteq> [] \<Longrightarrow>
   localStorage (snd (getSessionId_cart w)) ''session_id'' = Some (fst (getSessionId_cart w))"
  by (auto simp add: getSessionId_cart_def randomUUID_def Let_def split: option.splits)

text \<open>The cart module's identifier is stable: once resolved, it is the stored one, and a
  further call returns it and leaves the state alone.\<close>

lemma getSessionId_cart_idempotent:
  "fst (getSessionId_cart w) \<noteq> [] \<Longrightarrow>
   getSessionId_cart (snd (getSessionId_cart w)) =
     (fst (getSessionId_cart w), snd (getSessionId_cart w))"
  by (rule getSessionId_cart_stored [OF getSessionId_cart_stores])

lemma getSessionId_orders_products [simp]:
  "fst (getSessionId_orders (w\<lparr>products := ps\<rparr>)) = fst (getSessionId_orders w)"
  by (simp add: getSessionId_orders_def randomUUID_def split: option.splits)

section \<open>Cart operations\<close>

lemma clearCart_fail:
  "outcome (faults w) 0 = Some e \<Longrightarrow>
   clearCart w = (Inl e, (snd (getSessionId_cart w))\<lparr>faults := tl (faults w)\<rparr>)"
  by (simp add: clearCart_def case_prod_beta cart_items_delete_fail)

lemma clearCart_ok:
  "outcome (faults w) 0 = None \<Longrightarrow>
   clearCart w =
     (Inr (), (snd (getSessionId_cart w))\<lparr>faults := tl (faults w),
        cart_items := filter (\<lambda>r. ci_session_id r \<noteq> Some (fst (getSessionId_cart w)))
                        (cart_items w)\<rparr>)"
  by (simp add: clearCart_def case_prod_beta cart_items_delete_ok)

lemma clearCart_success_iff:
  "fst (clearCart w) = Inr () \<longleftrightarrow> outcome (faults w) 0 = None"
  by (cases "outcome (faults w) 0") (simp_all add: clearCart_ok clearCart_fail)

lemma removeFromCart_ok:
  "outcome (faults w) 0 = None \<Longrightarrow>
   removeFromCart cid w =
     (Inr (), w\<lparr>faults := tl (faults w),
               cart_items := filter (\<lambda>r. ci_id r \<noteq> cid) (cart_items w)\<rparr>)"
  by (simp add: removeFromCart_def cart_items_delete_ok)

lemma removeFromCart_fail:
  "outcome (faults w) 0 = Some e \<Longrightarrow>
   removeFromCart cid w = (Inl e, w\<lparr>faults := tl (faults w)\<rparr>)"
  by (simp add: removeFromCart_def cart_items_delete_fail)

lemma filter_update_quantity:
  "filter (\<lambda>r. ci_session_id r = s \<and> ci_product_id r = p)
     (map (\<lambda>r. if P r then r\<lparr>ci_quantity := q\<rparr> else r) xs) =
   map (\<lambda>r. if P r then r\<lparr>ci_quantity := q\<rparr> else r)
     (filter (\<lambda>r. ci_session_id r = s \<and> ci_product_id r = p) xs)"
  by (induction xs) simp_all

lemma addToCart_existing:
  assumes st: "localStorage w ''session_id'' = Some sid" "sid \<noteq> []"
    and ok: "\<forall>n. outcome (faults w) n = None"
    and one: "rows_for sid p w = [r]"
  shows "fst (addToCart p q w) = Inr ()"
    and "localStorage (snd (addToCart p q w)) ''session_id'' = Some sid"
    and "\<forall>n. outcome (faults (snd (addToCart p q w))) n = None"
    and "rows_for sid p (snd (addToCart p q w)) = [r\<lparr>ci_quantity := ci_quantity r + q\<rparr>]"
  using assms
  by (simp_all add: addToCart_def getSessionId_cart_stored rows_for_def cart_select_ok
        maybeSingle_def cart_update_ok filter_update_quantity)

lemma addToCart_new:
  assumes st: "localStorage w ''session_id'' = Some sid" "sid \<noteq> []"
    and ok: "\<forall>n. outcome (faults w) n = None"
    and none: "rows_for sid p w = []"
  shows "fst (addToCart p q w) = Inr ()"
    and "localStorage (snd (addToCart p q w)) ''session_id'' = Some sid"
    and "\<forall>n. outcome (faults (snd (addToCart p q w))) n = None"
    and "\<exists>r. rows_for sid p (snd (addToCart p q w)) = [r] \<and> ci_quantity r = q"
  using assms
  by (simp_all add: addToCart_def getSessionId_cart_stored rows_for_def cart_select_ok
        maybeSingle_def cart_insert_ok)

lemma addToCart_serial_existing:
  assumes "localStorage w ''session_id'' = Some sid" "sid \<noteq> []"
    and "\<forall>n. outcome (faults w) n = None"
    and "rows_for sid p w = [r]"
  shows "fst (addToCart_serial p qs w) = Inr ()
     \<and> (\<exists>r'. rows_for sid p (snd (addToCart_serial p qs w)) = [r']
            \<and> ci_quantity r' = ci_quantity r + sum_list qs)"
  using assms
proof (induction qs arbitrary: w r)
  case Nil
  then show ?case by simp
next
  case (Cons q qs)
  let ?w' = "snd (addToCart p q w)"
  note step = addToCart_existing [OF Cons.prems, of q]
  have "fst (addToCart_serial p qs ?w') = Inr ()
     \<and> (\<exists>r'. rows_for sid p (snd (addToCart_serial p qs ?w')) = [r']
            \<and> ci_quantity r' = ci_quantity (r\<lparr>ci_quantity := ci_quantity r + q\<rparr>) + sum_list qs)"
    by (rule Cons.IH [OF step(2) Cons.prems(2) step(3) step(4)])
  moreover have "addToCart_serial p (q # qs) w = addToCart_serial p qs ?w'"
    using step(1) by (cases "addToCart p q w") (simp split: sum.splits)
  ultimately show ?case by (simp add: add.assoc)
qed

lemma addToCart_resolved:
  "fst (getSessionId_cart w) \<noteq> [] \<Longrightarrow>
   addToCart p q w = addToCart p q (snd (getSessionId_cart w))"
  using getSessionId_cart_stored [OF getSessionId_cart_stores, of w]
  by (simp add: addToCart_def case_prod_beta)

section \<open>Order placement\<close>


lemma price_or_0_attached: "price_or_0 item = attached_price item"
  by (simp add: price_or_0_def attached_price_def split: option.splits)

lemma new_order_items_fields:
  "map oi_price (new_order_items cartItems w) = map attached_price cartItems"
  "map oi_quantity (new_order_items cartItems w) = map ci_quantity cartItems"
  "map oi_product_id (new_order_items cartItems w) = map ci_product_id cartItems"
  "map oi_order_id (new_order_items cartItems w) = map (\<lambda>_. db_uuid w (db_used w)) cartItems"
  "length (new_order_items cartItems w) = length cartItems"
  by (simp_all add: new_order_items_def stored_rows_fields comp_def price_or_0_attached)


lemma new_order_id: "o_id (new_order cartItems orderData w) = db_uuid w (db_used w)"
  by (simp add: new_order_def)

lemma new_products [simp]:
  "new_order cartItems orderData (w\<lparr>products := ps\<rparr>) = new_order cartItems orderData w"
  "new_order_items cartItems (w\<lparr>products := ps\<rparr>) = new_order_items cartItems w"
  by (simp_all add: new_order_def new_order_items_def)

lemma createOrder_inserted:
  assumes "outcome (faults w) 0 = None" "outcome (faults w) 1 = None"
  shows "orders (snd (createOrder cartItems orderData w)) =
           orders w @ [new_order cartItems orderData w]"
    and "order_items (snd (createOrder cartItems orderData w)) =
           order_items w @ new_order_items cartItems w"
    and "\<forall>ord. fst (createOrder cartItems orderData w) = Inr ord \<longrightarrow>
           ord = new_order cartItems orderData w"
proof -
  let ?w1 = "snd (getSessionId_orders w)"
  show "orders (snd (createOrder cartItems orderData w)) =
           orders w @ [new_order cartItems orderData w]"
    using assms
    by (cases "outcome (faults w) 2")
       (simp_all add: outcome_2 createOrder_def case_prod_beta Let_def orders_insert_ok
          order_items_insert_ok clearCart_ok clearCart_fail new_order_def)
  show "order_items (snd (createOrder cartItems orderData w)) =
           order_items w @ new_order_items cartItems w"
    using assms
    by (cases "outcome (faults w) 2")
       (simp_all add: outcome_2 createOrder_def case_prod_beta Let_def orders_insert_ok
          order_items_insert_ok clearCart_ok clearCart_fail new_order_items_def
          order_items_rows_stored)
  show "\<forall>ord. fst (createOrder cartItems orderData w) = Inr ord \<longrightarrow>
           ord = new_order cartItems orderData w"
    using assms
    by (cases "outcome (faults w) 2")
       (simp_all add: outcome_2 createOrder_def case_prod_beta Let_def orders_insert_ok
          order_items_insert_ok clearCart_ok clearCart_fail new_order_def)
qed




lemma filter_id_distinct:
  "distinct (map o_id rows) \<Longrightarrow> r \<in> set rows \<Longrightarrow>
   filter (\<lambda>x. o_id x = o_id r) rows = [r]"
proof (induction rows)
  case Nil
  then show ?case by simp
next
  case (Cons a rows)
  show ?case
  proof (cases "a = r")
    case True
    have "o_id r \<notin> o_id ` set rows" using Cons.prems(1) True by simp
    then have "\<forall>x\<in>set rows. o_id x \<noteq> o_id r" by (metis imageI)
    then have "filter (\<lambda>x. o_id x = o_id r) rows = []" by (simp add: filter_empty_conv)
    with True show ?thesis by simp
  next
    case False
    then have "r \<in> set rows" using Cons.prems(2) by simp
    moreover have "o_id a \<notin> o_id ` set rows" using Cons.prems(1) by simp
    then have "o_id a \<noteq> o_id r" using \<open>r \<in> set rows\<close> by (metis imageI)
    ultimately show ?thesis using Cons by simp
  qed
qed

section \<open>The claims\<close>

subsection \<open>Order lines and price snapshot\<close>

text \<open>
  The part of C1 about the order lines involves no arithmetic. Whenever the header insert
  and the items insert succeed, \<open>createOrder\<close> appends one Order and one OrderItem per
  cart item, in order, each carrying the price attached to its item, the copied
  quantity, the product id and the new order's id. The products table plays no part:
  with any other content of it, at the call or afterwards, the stored order and order
  lines are the same.

  The part of C1 about \<open>total_amount\<close> is not stated. The code adds and multiplies IEEE
  doubles and the store then rounds what it receives to the two decimals of its column;
  here numbers are reals and the store keeps them as given, so an equation between the
  stored total and the exact sum would be a fact of this arithmetic and not of the
  code's.
\<close>

lemma createOrder_snapshot_rows:
  assumes "outcome (faults w) 0 = None" and "outcome (faults w) 1 = None"
  shows "\<exists>order rows.
      orders (snd (createOrder cartItems orderData w)) = orders w @ [order]
    \<and> order_items (snd (createOrder cartItems orderData w)) = order_items w @ rows
    \<and> map oi_price rows = map attached_price cartItems
    \<and> map oi_quantity rows = map ci_quantity cartItems
    \<and> map oi_product_id rows = map ci_product_id cartItems
    \<and> map oi_order_id rows = map (\<lambda>_. o_id order) cartItems
    \<and> (\<forall>ps. orders (snd (createOrder cartItems orderData (w\<lparr>products := ps\<rparr>))) =
                orders w @ [order]
            \<and> order_items (snd (createOrder cartItems orderData (w\<lparr>products := ps\<rparr>))) =
                order_items w @ rows
            \<and> order_items ((snd (createOrder cartItems orderData w))\<lparr>products := ps\<rparr>) =
                order_items w @ rows)"
proof -
  have indep: "orders (snd (createOrder cartItems orderData (w\<lparr>products := ps\<rparr>))) =
                 orders w @ [new_order cartItems orderData w]
             \<and> order_items (snd (createOrder cartItems orderData (w\<lparr>products := ps\<rparr>))) =
                 order_items w @ new_order_items cartItems w" for ps
    using createOrder_inserted(1,2) [of "w\<lparr>products := ps\<rparr>" cartItems orderData] assms
    by simp
  show ?thesis
    apply (rule exI [of _ "new_order cartItems orderData w"])
    apply (rule exI [of _ "new_order_items cartItems w"])
    using createOrder_inserted(1,2) [OF assms, of cartItems orderData] indep
    by (simp add: new_order_items_fields new_order_id)
qed

text \<open>On the sample cart the order lines keep the prices 10 and 5 of the attached
  products, also when the keyboard's live price has become 99.\<close>

lemma createOrder_snapshot_rows_example:
  "map oi_price (order_items (snd (createOrder demo_cart demo_data demo_world))) = [10, 5]
   \<and> map oi_quantity (order_items (snd (createOrder demo_cart demo_data demo_world))) = [3, 1]
   \<and> map oi_price (order_items (snd (createOrder demo_cart demo_data
         (demo_world\<lparr>products := [keyboard\<lparr>p_price := 99\<rparr>, cable]\<rparr>)))) = [10, 5]"
proof -
  have h0: "outcome (faults demo_world) 0 = None" by (simp add: demo_world_def)
  have h1: "outcome (faults demo_world) 1 = None" by (simp add: demo_world_def)
  from createOrder_snapshot_rows [OF h0 h1, of demo_cart demo_data]
  obtain order rows where
    r: "order_items (snd (createOrder demo_cart demo_data demo_world)) =
              order_items demo_world @ rows"
    and p: "map oi_price rows = map attached_price demo_cart"
    and q: "map oi_quantity rows = map ci_quantity demo_cart"
    and i: "\<forall>ps. orders (snd (createOrder demo_cart demo_data (demo_world\<lparr>products := ps\<rparr>))) =
                orders demo_world @ [order]
            \<and> order_items (snd (createOrder demo_cart demo_data (demo_world\<lparr>products := ps\<rparr>))) =
                order_items demo_world @ rows
            \<and> order_items ((snd (createOrder demo_cart demo_data demo_world))\<lparr>products := ps\<rparr>) =
                order_items demo_world @ rows"
    by blast
  have e: "order_items demo_world = []"
    by (simp add: demo_world_def)
  have v: "map attached_price demo_cart = [10, 5]" "map ci_quantity demo_cart = [3, 1]"
    by (simp_all add: demo_cart_def cart_row_def attached_price_def keyboard_def cable_def)
  from i have "order_items (snd (createOrder demo_cart demo_data
         (demo_world\<lparr>products := [keyboard\<lparr>p_price := 99\<rparr>, cable]\<rparr>))) =
                order_items demo_world @ rows" by blast
  with r p q e v show ?thesis by simp
qed

subsection \<open>Serial adds of one product\<close>

text \<open>
  C2. Starting from a cart with no row for the session and product \<open>p\<close>, a non-empty
  series of \<open>addToCart p q\<close> calls, run one after the other with every request to the
  store succeeding, returns normally and leaves exactly one row for the session and
  \<open>p\<close>; its quantity is the sum of all the \<open>q\<close>. The session identifier is the one the
  first call resolves (stored already, or generated then), and it is not empty.
\<close>

theorem addToCart_accumulates:
  assumes ne: "qs \<noteq> []"
    and ok: "\<forall>n. outcome (faults w) n = None"
    and sid: "fst (getSessionId_cart w) \<noteq> []"
    and none: "rows_for (fst (getSessionId_cart w)) p w = []"
  shows "fst (addToCart_serial p qs w) = Inr ()
     \<and> (\<exists>r. rows_for (fst (getSessionId_cart w)) p (snd (addToCart_serial p qs w)) = [r]
            \<and> ci_quantity r = sum_list qs)"
proof -
  let ?sid = "fst (getSessionId_cart w)"
  let ?w1 = "snd (getSessionId_cart w)"
  from ne obtain q qs' where qs: "qs = q # qs'" by (cases qs) auto
  have st: "localStorage ?w1 ''session_id'' = Some ?sid"
    using sid by (rule getSessionId_cart_stores)
  have ok1: "\<forall>n. outcome (faults ?w1) n = None" using ok by simp
  have none1: "rows_for ?sid p ?w1 = []" using none by (simp add: rows_for_def)
  let ?w2 = "snd (addToCart p q ?w1)"
  note first = addToCart_new [OF st sid ok1 none1, of q]
  from first(4) obtain r where r: "rows_for ?sid p ?w2 = [r]" "ci_quantity r = q" by blast
  have rest: "fst (addToCart_serial p qs' ?w2) = Inr ()
     \<and> (\<exists>r'. rows_for ?sid p (snd (addToCart_serial p qs' ?w2)) = [r']
            \<and> ci_quantity r' = ci_quantity r + sum_list qs')"
    by (rule addToCart_serial_existing [OF first(2) sid first(3) r(1)])
  have "addToCart p q w = addToCart p q ?w1" using sid by (rule addToCart_resolved)
  then have "addToCart_serial p qs w = addToCart_serial p qs' ?w2"
    using first(1) by (cases "addToCart p q ?w1") (simp add: qs split: sum.splits)
  with rest r(2) show ?thesis by (simp add: qs)
qed

theorem addToCart_accumulates_witness:
  "[2, 1] \<noteq> ([] :: number list)
   \<and> (\<forall>n. outcome (faults demo_world) n = None)
   \<and> fst (getSessionId_cart demo_world) = ''S''
   \<and> rows_for ''S'' ''P3'' demo_world = []
   \<and> fst (addToCart_serial ''P3'' [2, 1] demo_world) = Inr ()
   \<and> (\<exists>r. rows_for ''S'' ''P3'' (snd (addToCart_serial ''P3'' [2, 1] demo_world)) = [r]
          \<and> ci_quantity r = 3)"
proof -
  have ok: "\<forall>n. outcome (faults demo_world) n = None" by (simp add: demo_world_def)
  have sid: "fst (getSessionId_cart demo_world) = ''S''"
    by (simp add: getSessionId_cart_def demo_world_def)
  have ne: "fst (getSessionId_cart demo_world) \<noteq> []" by (simp add: sid)
  have none: "rows_for ''S'' ''P3'' demo_world = []"
    by (simp add: rows_for_def demo_world_def cart_row_def)
  have none': "rows_for (fst (getSessionId_cart demo_world)) ''P3'' demo_world = []"
    by (simp add: sid none)
  have "[2, 1] \<noteq> ([] :: number list)" by simp
  from addToCart_accumulates [OF this ok ne none'] ok sid none show ?thesis by simp
qed

subsection \<open>Stability of the session identifier\<close>

text \<open>
  C3. The claim asks every resolution of the session identifier, those of
  \<open>createOrder\<close> and \<open>getOrders\<close> included, to return the same value after the first call.
  The orders module's \<open>getSessionId\<close> does not store what it generates: on a client whose
  storage holds no identifier, two calls in a row return two different values and the
  storage is still empty; and \<open>createOrder\<close> there files the order under one identifier
  while its cart clearing stores another.
\<close>

theorem getSessionId_orders_unstable:
  "fst (getSessionId_orders (demo_world\<lparr>localStorage := Map.empty\<rparr>)) = ''c-''
   \<and> fst (getSessionId_orders
            (snd (getSessionId_orders (demo_world\<lparr>localStorage := Map.empty\<rparr>)))) = ''c-0''
   \<and> localStorage
        (snd (getSessionId_orders
               (snd (getSessionId_orders (demo_world\<lparr>localStorage := Map.empty\<rparr>)))))
        ''session_id'' = None
   \<and> map o_session_id
        (orders (snd (createOrder demo_cart demo_data
                        (demo_world\<lparr>localStorage := Map.empty\<rparr>)))) = [Some ''c-'']
   \<and> localStorage
        (snd (createOrder demo_cart demo_data (demo_world\<lparr>localStorage := Map.empty\<rparr>)))
        ''session_id'' = Some ''c-0''"
proof -
  let ?w = "demo_world\<lparr>localStorage := Map.empty\<rparr>"
  have o: "outcome (faults ?w) 0 = None" "outcome (faults ?w) 1 = None"
    "outcome (faults ?w) 2 = None"
    by (simp_all add: demo_world_def)
  have a: "getSessionId_orders ?w = (''c-'', ?w\<lparr>uuid_used := Suc 0\<rparr>)"
    by (simp add: getSessionId_orders_def randomUUID_def demo_world_def demo_uuid_def)
  have b: "getSessionId_orders (?w\<lparr>uuid_used := Suc 0\<rparr>) =
             (''c-0'', ?w\<lparr>uuid_used := Suc (Suc 0)\<rparr>)"
    by (simp add: getSessionId_orders_def randomUUID_def demo_world_def demo_uuid_def)
  have c: "orders (snd (createOrder demo_cart demo_data ?w)) =
             orders ?w @ [new_order demo_cart demo_data ?w]"
    by (rule createOrder_inserted(1) [OF o(1,2)])
  have c': "map o_session_id (orders (snd (createOrder demo_cart demo_data ?w))) = [Some ''c-'']"
    by (simp add: c new_order_def a) (simp add: demo_world_def)
  have d: "localStorage (snd (createOrder demo_cart demo_data ?w)) ''session_id'' = Some ''c-0''"
    using o
    by (simp add: outcome_2 createOrder_def case_prod_beta Let_def orders_insert_ok
          order_items_insert_ok clearCart_ok a getSessionId_cart_def randomUUID_def)
       (simp add: demo_world_def demo_uuid_def)
  have e: "localStorage (?w\<lparr>uuid_used := Suc (Suc 0)\<rparr>) ''session_id'' = None"
    by simp
  show ?thesis
    by (simp only: a b c' d e fst_conv snd_conv simp_thms)
qed

subsection \<open>A failing cart clear\<close>




subsection \<open>A failing insert\<close>

text \<open>
  C5. When the header insert fails with \<open>e\<close>, or it succeeds and the items insert fails
  with \<open>e\<close>, \<open>createOrder\<close> throws \<open>e\<close> and the cart is not cleared: the cart rows and
  the client storage are untouched, and exactly one, respectively two, requests have
  been made, so no delete was sent.
\<close>

theorem createOrder_insert_failure:
  "(outcome (faults w) 0 = Some e \<longrightarrow>
      fst (createOrder cartItems orderData w) = Inl e
      \<and> cart_items (snd (createOrder cartItems orderData w)) = cart_items w
      \<and> localStorage (snd (createOrder cartItems orderData w)) = localStorage w
      \<and> faults (snd (createOrder cartItems orderData w)) = tl (faults w))
   \<and> (outcome (faults w) 0 = None \<and> outcome (faults w) 1 = Some e \<longrightarrow>
      fst (createOrder cartItems orderData w) = Inl e
      \<and> cart_items (snd (createOrder cartItems orderData w)) = cart_items w
      \<and> localStorage (snd (createOrder cartItems orderData w)) = localStorage w
      \<and> faults (snd (createOrder cartItems orderData w)) = tl (tl (faults w)))"
  by (simp add: createOrder_def case_prod_beta Let_def orders_insert_fail orders_insert_ok
        order_items_insert_fail)

theorem createOrder_insert_failure_witness:
  "outcome (faults (demo_world\<lparr>faults := [Some unavailable]\<rparr>)) 0 = Some unavailable
   \<and> fst (createOrder demo_cart demo_data (demo_world\<lparr>faults := [Some unavailable]\<rparr>)) =
       Inl unavailable
   \<and> map ci_id (cart_items (snd (createOrder demo_cart demo_data
                                   (demo_world\<lparr>faults := [Some unavailable]\<rparr>)))) =
       [''K1'', ''K2'', ''K3'']
   \<and> outcome (faults (demo_world\<lparr>faults := [None, Some unavailable]\<rparr>)) 0 = None
   \<and> outcome (faults (demo_world\<lparr>faults := [None, Some unavailable]\<rparr>)) 1 = Some unavailable
   \<and> fst (createOrder demo_cart demo_data (demo_world\<lparr>faults := [None, Some unavailable]\<rparr>)) =
       Inl unavailable
   \<and> map ci_id (cart_items (snd (createOrder demo_cart demo_data
                                   (demo_world\<lparr>faults := [None, Some unavailable]\<rparr>)))) =
       [''K1'', ''K2'', ''K3'']"
  using createOrder_insert_failure
          [of "demo_world\<lparr>faults := [Some unavailable]\<rparr>" unavailable demo_cart demo_data]
        createOrder_insert_failure
          [of "demo_world\<lparr>faults := [None, Some unavailable]\<rparr>" unavailable demo_cart demo_data]
  by (simp add: demo_world_def cart_row_def)

subsection \<open>Setting a quantity\<close>

text \<open>
  C6. With a quantity of 0 or less \<open>updateCartItemQuantity\<close> is \<open>removeFromCart\<close> on the
  same id, and when the request succeeds the rows with that id are gone and the others
  are kept. With a positive quantity, when the request succeeds every row with that id
  has exactly this quantity, whatever it had before, and the other rows are as they
  were.
\<close>

theorem updateCartItemQuantity_cases:
  "(quantity \<le> 0 \<longrightarrow> updateCartItemQuantity cartItemId quantity w = removeFromCart cartItemId w)
   \<and> (quantity \<le> 0 \<and> outcome (faults w) 0 = None \<longrightarrow>
        fst (updateCartItemQuantity cartItemId quantity w) = Inr ()
        \<and> cart_items (snd (updateCartItemQuantity cartItemId quantity w)) =
            filter (\<lambda>r. ci_id r \<noteq> cartItemId) (cart_items w))
   \<and> (0 < quantity \<and> outcome (faults w) 0 = None \<longrightarrow>
        fst (updateCartItemQuantity cartItemId quantity w) = Inr ()
        \<and> cart_items (snd (updateCartItemQuantity cartItemId quantity w)) =
            map (\<lambda>r. if ci_id r = cartItemId then r\<lparr>ci_quantity := quantity\<rparr> else r)
              (cart_items w))"
  by (simp add: updateCartItemQuantity_def removeFromCart_ok cart_update_ok)

theorem updateCartItemQuantity_cases_witness:
  "(0::number) \<le> 0 \<and> (-1::number) \<le> 0 \<and> (0::number) < 5
   \<and> outcome (faults demo_world) 0 = None
   \<and> map ci_id (cart_items (snd (updateCartItemQuantity ''K1'' 0 demo_world))) = [''K2'', ''K3'']
   \<and> map ci_id (cart_items (snd (updateCartItemQuantity ''K1'' (-1) demo_world))) =
       [''K2'', ''K3'']
   \<and> updateCartItemQuantity ''K1'' (-1) demo_world = removeFromCart ''K1'' demo_world
   \<and> map ci_quantity (cart_items (snd (updateCartItemQuantity ''K1'' 5 demo_world))) = [5, 1, 7]"
proof -
  have z: "(0::number) \<le> 0 \<and> (-1::number) \<le> 0 \<and> (0::number) < 5" by simp
  have ok: "outcome (faults demo_world) 0 = None" by (simp add: demo_world_def)
  have c: "cart_items demo_world =
             [cart_row ''K1'' ''S'' ''P1'' 3 None, cart_row ''K2'' ''S'' ''P2'' 1 None,
              cart_row ''K3'' ''T'' ''P1'' 7 None]"
    by (simp add: demo_world_def)
  have a: "cart_items (snd (updateCartItemQuantity ''K1'' 0 demo_world)) =
             filter (\<lambda>r. ci_id r \<noteq> ''K1'') (cart_items demo_world)"
    using updateCartItemQuantity_cases [of 0 "''K1''" demo_world] ok by auto
  have b1: "updateCartItemQuantity ''K1'' (-1) demo_world = removeFromCart ''K1'' demo_world"
    using updateCartItemQuantity_cases [of "-1" "''K1''" demo_world] by auto
  have b2: "cart_items (snd (updateCartItemQuantity ''K1'' (-1) demo_world)) =
             filter (\<lambda>r. ci_id r \<noteq> ''K1'') (cart_items demo_world)"
    using updateCartItemQuantity_cases [of "-1" "''K1''" demo_world] ok by auto
  have d: "cart_items (snd (updateCartItemQuantity ''K1'' 5 demo_world)) =
             map (\<lambda>r. if ci_id r = ''K1'' then r\<lparr>ci_quantity := 5\<rparr> else r)
               (cart_items demo_world)"
    using updateCartItemQuantity_cases [of 5 "''K1''" demo_world] ok by auto
  have f1: "map ci_id (cart_items (snd (updateCartItemQuantity ''K1'' 0 demo_world))) =
              [''K2'', ''K3'']"
    by (simp add: a c cart_row_def)
  have f2: "map ci_id (cart_items (snd (updateCartItemQuantity ''K1'' (-1) demo_world))) =
              [''K2'', ''K3'']"
    by (simp add: b2 c cart_row_def)
  have f3: "map ci_quantity (cart_items (snd (updateCartItemQuantity ''K1'' 5 demo_world))) =
              [5, 1, 7]"
    by (simp add: d c cart_row_def)
  show ?thesis using z ok b1 f1 f2 f3 by blast
qed

subsection \<open>Errors of the cart's mutating operations\<close>

text \<open>
  C7. The claim asks every store error of a mutating cart operation to reach the caller,
  the lookup of \<open>addToCart\<close> included. \<open>addToCart\<close> reads only the data of the lookup's
  response: when the lookup fails, the call goes on as if no row existed. On the sample
  cart, which holds three keyboards, a failing lookup followed by a successful insert
  returns normally and leaves a second row for the same session and product.
\<close>

theorem addToCart_lookup_error_swallowed:
  "outcome (faults (demo_world\<lparr>faults := [Some unavailable]\<rparr>)) 0 = Some unavailable
   \<and> fst (addToCart ''P1'' 1 (demo_world\<lparr>faults := [Some unavailable]\<rparr>)) = Inr ()
   \<and> map ci_quantity
        (rows_for ''S'' ''P1''
           (snd (addToCart ''P1'' 1 (demo_world\<lparr>faults := [Some unavailable]\<rparr>)))) = [3, 1]"
proof -
  let ?w = "demo_world\<lparr>faults := [Some unavailable]\<rparr>"
  have s: "getSessionId_cart ?w = (''S'', ?w)"
    by (rule getSessionId_cart_stored) (simp_all add: demo_world_def)
  show ?thesis
    by (simp add: addToCart_def s cart_select_fail cart_insert_ok rows_for_def)
       (simp add: demo_world_def cart_row_def)
qed

text \<open>The other mutating operations do hand the store's error on, and so do the update and
  the insert of \<open>addToCart\<close> once the lookup has answered.\<close>

lemma cart_mutations_propagate:
  assumes "outcome (faults w) 0 = Some e"
  shows "fst (updateCartItemQuantity cartItemId quantity w) = Inl e"
    and "fst (removeFromCart cartItemId w) = Inl e"
    and "fst (clearCart w) = Inl e"
  using assms
  by (simp_all add: updateCartItemQuantity_def removeFromCart_fail cart_update_fail
        clearCart_fail)

lemma addToCart_write_propagates:
  assumes "outcome (faults w) 0 = None" and "outcome (faults w) 1 = Some e"
  shows "fst (addToCart productId quantity w) = Inl e"
  using assms
  by (simp add: addToCart_def case_prod_beta cart_select_ok cart_update_fail cart_insert_fail
        split: option.splits)

subsection \<open>Looking an order up\<close>

text \<open>
  C8. For an id that no stored Order has, \<open>getOrderById\<close> returns null whenever the
  store answers, and throws only what the store itself reports: the missing row is never
  an error. For the id of a stored Order, ids being unique as the primary key makes
  them, it returns that Order when the request succeeds.
\<close>

theorem getOrderById_absent_or_found:
  "((\<forall>r\<in>set (orders w). o_id r \<noteq> orderId) \<longrightarrow>
      fst (getOrderById orderId w) =
        (case outcome (faults w) 0 of None \<Rightarrow> Inr None | Some e \<Rightarrow> Inl e))
   \<and> (distinct (map o_id (orders w)) \<and> r \<in> set (orders w) \<and> o_id r = orderId
        \<and> outcome (faults w) 0 = None \<longrightarrow>
      fst (getOrderById orderId w) = Inr (Some r))"
proof (intro conjI impI)
  assume a: "\<forall>r\<in>set (orders w). o_id r \<noteq> orderId"
  then have "filter (\<lambda>r. o_id r = orderId) (orders w) = []"
    by (simp add: filter_empty_conv)
  then show "fst (getOrderById orderId w) =
        (case outcome (faults w) 0 of None \<Rightarrow> Inr None | Some e \<Rightarrow> Inl e)"
    by (cases "outcome (faults w) 0")
       (simp_all add: getOrderById_def orders_select_ok orders_select_fail maybeSingle_def)
next
  assume a: "distinct (map o_id (orders w)) \<and> r \<in> set (orders w) \<and> o_id r = orderId
        \<and> outcome (faults w) 0 = None"
  then have "filter (\<lambda>x. o_id x = orderId) (orders w) = [r]"
    using filter_id_distinct [of "orders w" r] by auto
  then show "fst (getOrderById orderId w) = Inr (Some r)"
    using a by (simp add: getOrderById_def orders_select_ok maybeSingle_def)
qed

theorem getOrderById_absent_or_found_witness:
  "map o_id (orders (snd (createOrder demo_cart demo_data demo_world))) = [''db-'']
   \<and> fst (getOrderById ''nope'' (snd (createOrder demo_cart demo_data demo_world))) = Inr None
   \<and> distinct (map o_id (orders (snd (createOrder demo_cart demo_data demo_world))))
   \<and> new_order demo_cart demo_data demo_world
        \<in> set (orders (snd (createOrder demo_cart demo_data demo_world)))
   \<and> o_id (new_order demo_cart demo_data demo_world) = ''db-''
   \<and> outcome (faults (snd (createOrder demo_cart demo_data demo_world))) 0 = None
   \<and> fst (getOrderById ''db-'' (snd (createOrder demo_cart demo_data demo_world))) =
       Inr (Some (new_order demo_cart demo_data demo_world))"
proof -
  let ?w = "snd (createOrder demo_cart demo_data demo_world)"
  let ?r = "new_order demo_cart demo_data demo_world"
  have h: "outcome (faults demo_world) 0 = None" "outcome (faults demo_world) 1 = None"
    "outcome (faults demo_world) 2 = None"
    by (simp_all add: demo_world_def)
  have o: "orders ?w = [?r]"
    using createOrder_inserted(1) [OF h(1,2), of demo_cart demo_data]
    by (simp add: demo_world_def)
  have i: "o_id ?r = ''db-''" by (simp add: new_order_def demo_world_def demo_uuid_def)
  have f: "outcome (faults ?w) 0 = None"
    using h
    by (simp add: outcome_2 createOrder_def case_prod_beta Let_def orders_insert_ok
          order_items_insert_ok clearCart_ok)
       (simp add: demo_world_def)
  have a: "\<forall>r\<in>set (orders ?w). o_id r \<noteq> ''nope''" by (simp add: o i)
  have d: "distinct (map o_id (orders ?w))" by (simp add: o)
  have m: "?r \<in> set (orders ?w)" by (simp add: o)
  have l: "map o_id (orders ?w) = [''db-'']" by (simp add: o i)
  from getOrderById_absent_or_found [of ?w "''nope''" ?r]
       getOrderById_absent_or_found [of ?w "''db-''" ?r] a d m i f l
  show ?thesis by simp
qed

subsection \<open>Clearing the cart\<close>

text \<open>
  C9. Whenever the store carries out the delete request, \<open>clearCart\<close> succeeds and the
  cart rows afterwards are those whose session identifier is not the caller's, in their
  order and unchanged: no row of the caller's session is left, and the rows of every
  other session (and rows without a session) are exactly as before. The caller's
  identifier is the one the call resolves, stored already or generated then.
\<close>

theorem clearCart_frame:
  assumes "outcome (faults w) 0 = None"
  shows "fst (clearCart w) = Inr ()
     \<and> cart_items (snd (clearCart w)) =
           filter (\<lambda>r. ci_session_id r \<noteq> Some (fst (getSessionId_cart w))) (cart_items w)
     \<and> filter (\<lambda>r. ci_session_id r = Some (fst (getSessionId_cart w)))
          (cart_items (snd (clearCart w))) = []
     \<and> filter (\<lambda>r. ci_session_id r \<noteq> Some (fst (getSessionId_cart w)))
          (cart_items (snd (clearCart w))) =
        filter (\<lambda>r. ci_session_id r \<noteq> Some (fst (getSessionId_cart w))) (cart_items w)"
  by (simp add: clearCart_ok [OF assms] filter_empty_conv)

theorem clearCart_frame_witness:
  "outcome (faults demo_world) 0 = None
   \<and> fst (getSessionId_cart demo_world) = ''S''
   \<and> map ci_id (cart_items demo_world) = [''K1'', ''K2'', ''K3'']
   \<and> fst (clearCart demo_world) = Inr ()
   \<and> cart_items (snd (clearCart demo_world)) = [cart_row ''K3'' ''T'' ''P1'' 7 None]"
proof -
  have ok: "outcome (faults demo_world) 0 = None" by (simp add: demo_world_def)
  have sid: "fst (getSessionId_cart demo_world) = ''S''"
    by (simp add: getSessionId_cart_def demo_world_def)
  have ids: "map ci_id (cart_items demo_world) = [''K1'', ''K2'', ''K3'']"
    by (simp add: demo_world_def cart_row_def)
  have "cart_items (snd (clearCart demo_world)) = [cart_row ''K3'' ''T'' ''P1'' 7 None]"
    using clearCart_frame [OF ok] by (simp add: sid) (simp add: demo_world_def cart_row_def)
  with clearCart_frame [OF ok] ok sid ids show ?thesis by blast
qed

text \<open>By \<open>clearCart_success_iff\<close> a successful call and a delete the store carried out are
  the same thing, so the statement covers every successful \<open>clearCart\<close>.\<close>

subsection \<open>A cart item without its product\<close>



end
